theory Spec2Isabelle
  imports Complex_Main
begin

section \<open>Fuzzy membership plots of graphic.py\<close>

text \<open>
  The development follows \<^verbatim>\<open>src/graphic.py\<close>: the class \<^verbatim>\<open>Plot\<close> (one trapezoidal
  membership function), the class \<^verbatim>\<open>Layout\<close> (a set of plots and the dictionary
  \<^verbatim>\<open>values\<close> built by \<^verbatim>\<open>create\<close>), and the part of \<^verbatim>\<open>Figure\<close> that builds the
  Water Temperature layout and reads its dictionary.

  Numbers are Python floats (IEEE doubles) in the source. The main model takes them as
  reals: it is the code wherever the double operations involved are exact, as they are for
  integer breakpoints of moderate size and for small dyadic ones such as \<open>1/2\<close>. Rounding
  is outside this model. Overflow to an infinity and NaN decide one property of
  \<^verbatim>\<open>membership\<close>; for it the method is modelled a second time, over doubles, in
  \<open>membership_double\<close>. The calls on \<^verbatim>\<open>axis\<close> (matplotlib) draw the curves and do not
  touch \<^verbatim>\<open>values\<close>; they are left out, together with the array \<^verbatim>\<open>yValues\<close> that only
  feeds them.
\<close>

subsection \<open>Errors\<close>

text \<open>
  \<^verbatim>\<open>ZeroDivisionError\<close> is what a float division by zero raises; \<^verbatim>\<open>TypeError\<close> is what
  the comparison \<^verbatim>\<open>oldY > newY\<close> raises when \<^verbatim>\<open>newY\<close> is \<^verbatim>\<open>None\<close>.
\<close>

datatype error = ZeroDivisionError | TypeError

subsection \<open>Plot\<close>

text \<open>\<^verbatim>\<open>class Plot(namedtuple('Plot', ('label', 'coords')))\<close>; equality is equality of both fields.\<close>

record Plot =
  label :: string
  coords :: "real \<times> real \<times> real \<times> real"

text \<open>The properties \<^verbatim>\<open>start = min(self.coords)\<close>, \<^verbatim>\<open>end = max(self.coords)\<close> and
  \<^verbatim>\<open>size = self.end - self.start\<close>.\<close>

definition plot_start :: "Plot \<Rightarrow> real" where
  "plot_start p = (case coords p of (a, b, c, d) \<Rightarrow> min a (min b (min c d)))"

definition plot_end :: "Plot \<Rightarrow> real" where
  "plot_end p = (case coords p of (a, b, c, d) \<Rightarrow> max a (max b (max c d)))"

definition plot_size :: "Plot \<Rightarrow> real" where
  "plot_size p = plot_end p - plot_start p"

text \<open>
  \<^verbatim>\<open>membership\<close>: the four guarded branches in the order of the source. The result is
  \<open>Inr (Some y)\<close> for a returned number, \<open>Inr None\<close> when no branch is taken (the
  method then returns \<^verbatim>\<open>None\<close>), and \<open>Inl ZeroDivisionError\<close> when a divisor is zero.
\<close>

definition membership :: "Plot \<Rightarrow> real \<Rightarrow> error + real option" where
  "membership p x = (case coords p of (a, b, c, d) \<Rightarrow>
     if d < x \<or> x < a then Inr (Some 0)
     else if a \<le> x \<and> x < b then
       (if b - a = 0 then Inl ZeroDivisionError else Inr (Some ((x - a) / (b - a))))
     else if b \<le> x \<and> x \<le> c then Inr (Some 1)
     else if c < x \<and> x \<le> d then
       (if d - c = 0 then Inl ZeroDivisionError else Inr (Some ((d - x) / (d - c))))
     else Inr None)"

text \<open>The branch of \<^verbatim>\<open>membership\<close> that an input takes: the same guards, naming the branch.\<close>

datatype branch = Outside | Rising | Plateau | Falling | NoBranch

definition membership_branch :: "Plot \<Rightarrow> real \<Rightarrow> branch" where
  "membership_branch p x = (case coords p of (a, b, c, d) \<Rightarrow>
     if d < x \<or> x < a then Outside
     else if a \<le> x \<and> x < b then Rising
     else if b \<le> x \<and> x \<le> c then Plateau
     else if c < x \<and> x \<le> d then Falling
     else NoBranch)"

subsection \<open>membership over doubles\<close>









subsection \<open>Layout\<close>

text \<open>
  \<^verbatim>\<open>values\<close> is a dictionary from sample points to what \<^verbatim>\<open>membership\<close> returned (a number
  or \<^verbatim>\<open>None\<close>); \<^verbatim>\<open>plots\<close> is a Python set. \<^verbatim>\<open>start\<close> and \<^verbatim>\<open>end\<close> of the source are the
  fields \<open>layout_start\<close> and \<open>layout_end\<close>, \<^verbatim>\<open>values\<close> is \<open>layout_values\<close>.
\<close>

type_synonym table = "real \<rightharpoonup> real option"

record Layout =
  title :: string
  layout_start :: real
  layout_end :: real
  layout_values :: table
  plots :: "Plot set"

text \<open>\<^verbatim>\<open>Layout(title=..., start=..., end=...)\<close> with \<^verbatim>\<open>__init__\<close>: empty dictionary, empty set.\<close>

definition new_Layout :: "string \<Rightarrow> real \<Rightarrow> real \<Rightarrow> Layout" where
  "new_Layout t s e =
     \<lparr>title = t, layout_start = s, layout_end = e, layout_values = Map.empty, plots = {}\<rparr>"

definition add :: "Layout \<Rightarrow> Plot \<Rightarrow> Layout" where
  "add l p = l\<lparr>plots := insert p (plots l)\<rparr>"

text \<open>\<^verbatim>\<open>dict.get(key)\<close>: the stored value, and \<^verbatim>\<open>None\<close> for a missing key.\<close>

definition dict_get :: "table \<Rightarrow> real \<Rightarrow> real option" where
  "dict_get t x = (case t x of None \<Rightarrow> None | Some v \<Rightarrow> v)"

text \<open>
  \<^verbatim>\<open>numpy.arange(stop)\<close> of the numpy library, for a float \<^verbatim>\<open>stop\<close>: the values
  \<open>0, 1, 2, \<dots>\<close> below \<^verbatim>\<open>stop\<close>, that is \<open>\<lceil>stop\<rceil>\<close> of them (none when \<^verbatim>\<open>stop \<le> 0\<close>).
  \<^verbatim>\<open>xValues = plot.start + numpy.arange(plot.size)\<close> adds the start to each. Over the
  reals this is the code when \<^verbatim>\<open>start\<close> and \<^verbatim>\<open>size\<close> are computed exactly (integer
  breakpoints, or dyadic ones such as \<open>1/2\<close>); for breakpoints such as \<open>1.2\<close> the rounding
  of \<^verbatim>\<open>size\<close> can change the number of points, which this model does not follow.
\<close>

definition arange :: "real \<Rightarrow> real list" where
  "arange stop = map real [0..<nat \<lceil>stop\<rceil>]"

definition xValues :: "Plot \<Rightarrow> real list" where
  "xValues p = map (\<lambda>k. plot_start p + k) (arange (plot_size p))"

text \<open>
  The body of the inner loop of \<^verbatim>\<open>create\<close> for one sample point:
  \<^verbatim>\<open>newY = plot.membership(x); oldY = values.get(x);
  if oldY is not None and oldY > newY: continue; values[x] = newY\<close>.
\<close>

definition visit :: "Plot \<Rightarrow> real \<Rightarrow> table \<Rightarrow> error + table" where
  "visit p x t = (case membership p x of
       Inl e \<Rightarrow> Inl e
     | Inr newY \<Rightarrow> (case dict_get t x of
           None \<Rightarrow> Inr (t(x \<mapsto> newY))
         | Some oldY \<Rightarrow> (case newY of
               None \<Rightarrow> Inl TypeError
             | Some y \<Rightarrow> if oldY > y then Inr t else Inr (t(x \<mapsto> newY)))))"

text \<open>\<^verbatim>\<open>for x in xValues\<close>: the points in order, stopping at the first error.\<close>

fun visit_all :: "Plot \<Rightarrow> real list \<Rightarrow> table \<Rightarrow> error + table" where
  "visit_all p [] t = Inr t"
| "visit_all p (x # xs) t =
     (case visit p x t of Inl e \<Rightarrow> Inl e | Inr t' \<Rightarrow> visit_all p xs t')"

text \<open>\<^verbatim>\<open>for plot in self.plots\<close>, given the order in which the set is iterated.\<close>

fun plot_loop :: "Plot list \<Rightarrow> table \<Rightarrow> error + table" where
  "plot_loop [] t = Inr t"
| "plot_loop (p # ps) t =
     (case visit_all p (xValues p) t of Inl e \<Rightarrow> Inl e | Inr t' \<Rightarrow> plot_loop ps t')"

text \<open>
  \<^verbatim>\<open>create\<close>. Python leaves the iteration order of a set unspecified, so the order is the
  second argument: a list \<open>order\<close> that enumerates \<open>plots l\<close>. The theorems below assume
  \<open>set order = plots l\<close> and nothing else about it.
\<close>

definition create :: "Layout \<Rightarrow> Plot list \<Rightarrow> error + Layout" where
  "create l order = (case plot_loop order (layout_values l) of
       Inl e \<Rightarrow> Inl e
     | Inr t \<Rightarrow> Inr (l\<lparr>layout_values := t\<rparr>))"

subsection \<open>Figure: the Water Temperature layout and its lookup\<close>

text \<open>
  The entry \<^verbatim>\<open>'Water Temperature'\<close> of \<^verbatim>\<open>_LAYOUTS_DATA\<close>, and the loop of
  \<^verbatim>\<open>Figure.__init__\<close> that adds one \<^verbatim>\<open>Plot\<close> per item with the coordinates converted by
  \<^verbatim>\<open>float\<close>. The function \<^verbatim>\<open>translate\<close> reads a file that is not part of the sources; it is
  the parameter \<open>tr\<close>.
\<close>

definition water_plotsData :: "(string \<times> int \<times> int \<times> int \<times> int) list" where
  "water_plotsData =
     [(''Low temperature'', 39, 40, 57, 65),
      (''Medium temperature'', 55, 60, 79, 83),
      (''High temperature'', 78, 83, 105, 106)]"

definition make_Plot :: "(string \<Rightarrow> string) \<Rightarrow> string \<times> int \<times> int \<times> int \<times> int \<Rightarrow> Plot" where
  "make_Plot tr item = (case item of (plotTitle, a, b, c, d) \<Rightarrow>
     \<lparr>label = tr plotTitle, coords = (real_of_int a, real_of_int b, real_of_int c, real_of_int d)\<rparr>)"

definition water_layout :: "(string \<Rightarrow> string) \<Rightarrow> Layout" where
  "water_layout tr =
     fold (\<lambda>item l. add l (make_Plot tr item)) water_plotsData
       (new_Layout (tr ''Water Temperature'') 40 105)"

text \<open>
  \<^verbatim>\<open>onTextChanged\<close> after \<^verbatim>\<open>int(text)\<close> has succeeded:
  \<^verbatim>\<open>self.__layouts['Water Temperature'].values.get(waterTemperature)\<close>, where \<open>None\<close>
  leads to the message for an incorrect value.
\<close>

definition lookup :: "Layout \<Rightarrow> int \<Rightarrow> real option" where
  "lookup l waterTemperature = dict_get (layout_values l) (real_of_int waterTemperature)"

section \<open>Auxiliary definitions\<close>

text \<open>The degree that \<^verbatim>\<open>membership\<close> returns, as a total function used in the proofs.\<close>

definition degree :: "Plot \<Rightarrow> real \<Rightarrow> real" where
  "degree p x = (case coords p of (a, b, c, d) \<Rightarrow>
     if d < x \<or> x < a then 0
     else if x < b then (x - a) / (b - a)
     else if x \<le> c then 1
     else (d - x) / (d - c))"

text \<open>The larger of a value read with \<^verbatim>\<open>values.get\<close> (possibly \<^verbatim>\<open>None\<close>) and a new degree.\<close>

definition omax :: "real option \<Rightarrow> real \<Rightarrow> real" where
  "omax old v = (case old of None \<Rightarrow> v | Some w \<Rightarrow> max w v)"

text \<open>
  The degrees at \<open>x\<close> of those plots of \<open>P\<close> whose own sample sequence \<^verbatim>\<open>xValues\<close>
  contains \<open>x\<close>.
\<close>

definition sampled :: "Plot set \<Rightarrow> real \<Rightarrow> real set" where
  "sampled P x = {y. \<exists>p\<in>P. x \<in> set (xValues p) \<and> membership p x = Inr (Some y)}"

text \<open>\<^verbatim>\<open>layout.create(axis)\<close> followed by \<^verbatim>\<open>layout.values.get(x)\<close>.\<close>

definition create_then_get :: "Layout \<Rightarrow> Plot list \<Rightarrow> real \<Rightarrow> error + real option" where
  "create_then_get l order x = (case create l order of
       Inl e \<Rightarrow> Inl e
     | Inr l' \<Rightarrow> Inr (dict_get (layout_values l') x))"

section \<open>Auxiliary facts\<close>

subsection \<open>membership always returns a number\<close>

lemma membership_degree: "membership p x = Inr (Some (degree p x))"
  by (cases "coords p") (auto simp: membership_def degree_def)

lemma degree_sorted_rise:
  assumes "coords p = (a, b, c, d)" and "a \<le> b" and "b \<le> c" and "c \<le> d"
    and "a \<le> x" and "x \<le> y" and "y \<le> b"
  shows "degree p x \<le> degree p y"
proof (cases "y < b")
  case True
  with assms have "(x - a) / (b - a) \<le> (y - a) / (b - a)"
    by (intro divide_right_mono) auto
  with True assms show ?thesis by (simp add: degree_def)
next
  case False
  with assms have "y = b" by simp
  moreover from assms have "(x - a) / (b - a) \<le> 1" by (simp add: divide_le_eq)
  ultimately show ?thesis using assms by (auto simp: degree_def)
qed

lemma degree_sorted_fall:
  assumes "coords p = (a, b, c, d)" and "a \<le> b" and "b \<le> c" and "c \<le> d"
    and "c \<le> x" and "x \<le> y" and "y \<le> d"
  shows "degree p y \<le> degree p x"
proof (cases "c < x")
  case True
  with assms have "(d - y) / (d - c) \<le> (d - x) / (d - c)"
    by (intro divide_right_mono) auto
  with True assms show ?thesis by (auto simp: degree_def)
next
  case False
  with assms have "x = c" by simp
  moreover from assms have "(d - y) / (d - c) \<le> 1" by (simp add: divide_le_eq)
  ultimately show ?thesis using assms by (auto simp: degree_def)
qed

lemma degree_bounds: "0 \<le> degree p x \<and> degree p x \<le> 1"
  by (cases "coords p") (auto simp: degree_def divide_le_eq)

lemma membership_by_branch:
  "membership p x = (case coords p of (a, b, c, d) \<Rightarrow>
     (case membership_branch p x of
        Outside \<Rightarrow> Inr (Some 0)
      | Rising \<Rightarrow> if b - a = 0 then Inl ZeroDivisionError else Inr (Some ((x - a) / (b - a)))
      | Plateau \<Rightarrow> Inr (Some 1)
      | Falling \<Rightarrow> if d - c = 0 then Inl ZeroDivisionError else Inr (Some ((d - x) / (d - c)))
      | NoBranch \<Rightarrow> Inr None))"
  by (cases "coords p") (simp add: membership_def membership_branch_def)

subsection \<open>The sample sequence\<close>

lemma plot_size_nonneg: "0 \<le> plot_size p"
  by (cases "coords p") (simp add: plot_size_def plot_start_def plot_end_def)

lemma length_xValues: "length (xValues p) = nat \<lceil>plot_size p\<rceil>"
  by (simp add: xValues_def arange_def)

lemma nth_xValues: "i < length (xValues p) \<Longrightarrow> xValues p ! i = plot_start p + real i"
  by (simp add: xValues_def arange_def)

lemma set_xValues: "set (xValues p) = (\<lambda>k. plot_start p + real k) ` {..<nat \<lceil>plot_size p\<rceil>}"
  by (auto simp: xValues_def arange_def)

subsection \<open>What the loops of create compute\<close>

lemma sampled_degree: "sampled P x = (\<lambda>p. degree p x) ` {p \<in> P. x \<in> set (xValues p)}"
  by (auto simp: sampled_def membership_degree)

lemma finite_sampled: "finite P \<Longrightarrow> finite (sampled P x)"
  by (simp add: sampled_degree)

lemma sampled_set_Cons:
  "sampled (set (p # ps)) z =
     (if z \<in> set (xValues p) then insert (degree p z) (sampled (set ps) z) else sampled (set ps) z)"
  by (auto simp: sampled_degree)

lemma visit_eq: "visit p x t = Inr (t(x \<mapsto> Some (omax (dict_get t x) (degree p x))))"
  by (auto simp: visit_def membership_degree omax_def dict_get_def fun_eq_iff split: option.splits)

lemma visit_all_eq:
  "visit_all p xs t =
     Inr (\<lambda>z. if z \<in> set xs then Some (Some (omax (dict_get t z) (degree p z))) else t z)"
proof (induction xs arbitrary: t)
  case Nil
  show ?case by simp
next
  case (Cons x xs)
  show ?case
    by (simp add: visit_eq Cons.IH)
       (auto simp: fun_eq_iff dict_get_def omax_def split: option.splits)
qed

lemma Max_absorb_omax:
  assumes "finite S"
  shows "Max (insert (omax old v) S) = Max (insert v S \<union> set_option old)"
proof (cases old)
  case None
  then show ?thesis by (simp add: omax_def)
next
  case (Some w)
  have "Max (insert (max w v) S) = Max (insert w (insert v S))"
  proof (cases "S = {}")
    case True
    then show ?thesis by (simp add: max.commute)
  next
    case False
    with assms show ?thesis by (simp add: max.assoc max.commute)
  qed
  with Some show ?thesis by (simp add: omax_def)
qed

lemma plot_loop_eq:
  "plot_loop ps t =
     Inr (\<lambda>z. if sampled (set ps) z = {} then t z
              else Some (Some (Max (sampled (set ps) z \<union> set_option (dict_get t z)))))"
proof (induction ps arbitrary: t)
  case Nil
  show ?case by (simp add: sampled_def)
next
  case (Cons p ps)
  define t1 where
    "t1 = (\<lambda>z. if z \<in> set (xValues p)
                then Some (Some (omax (dict_get t z) (degree p z))) else t z)"
  have step: "plot_loop (p # ps) t = plot_loop ps t1"
    by (simp add: visit_all_eq t1_def)
  have "(if sampled (set ps) z = {} then t1 z
         else Some (Some (Max (sampled (set ps) z \<union> set_option (dict_get t1 z))))) =
        (if sampled (set (p # ps)) z = {} then t z
         else Some (Some (Max (sampled (set (p # ps)) z \<union> set_option (dict_get t z)))))"
    for z
  proof (cases "z \<in> set (xValues p)")
    case False
    then show ?thesis
      by (simp add: sampled_set_Cons t1_def dict_get_def del: set_simps)
  next
    case True
    have fin: "finite (sampled (set ps) z)"
      by (simp add: finite_sampled)
    have get: "dict_get t1 z = Some (omax (dict_get t z) (degree p z))"
      using True by (simp add: t1_def dict_get_def)
    show ?thesis
    proof (cases "sampled (set ps) z = {}")
      case True
      with \<open>z \<in> set (xValues p)\<close> Max_absorb_omax [of "{}" "dict_get t z" "degree p z"]
      show ?thesis
        by (simp add: sampled_set_Cons t1_def del: set_simps)
    next
      case False
      with \<open>z \<in> set (xValues p)\<close> Max_absorb_omax [OF fin, of "dict_get t z" "degree p z"]
      show ?thesis
        by (simp add: sampled_set_Cons get del: set_simps)
    qed
  qed
  then show ?case
    unfolding step Cons.IH by simp
qed

lemma create_eq:
  "create l order =
     Inr (l\<lparr>layout_values := \<lambda>z.
        if sampled (set order) z = {} then layout_values l z
        else Some (Some (Max (sampled (set order) z \<union> set_option (dict_get (layout_values l) z))))\<rparr>)"
  by (simp add: create_def plot_loop_eq)

lemma create_eq_set:
  assumes "set order = P"
  shows "create l order =
     Inr (l\<lparr>layout_values := \<lambda>z.
        if sampled P z = {} then layout_values l z
        else Some (Some (Max (sampled P z \<union> set_option (dict_get (layout_values l) z))))\<rparr>)"
  unfolding assms [symmetric] by (rule create_eq)

lemma sampled_empty_iff: "sampled P x = {} \<longleftrightarrow> (\<forall>p\<in>P. x \<notin> set (xValues p))"
  by (auto simp: sampled_degree)

lemma Max_absorb_Max:
  assumes "finite S" and "S \<noteq> {}" and "finite T"
  shows "Max (S \<union> {Max (S \<union> T)}) = Max (S \<union> T)"
proof (rule Max_eqI)
  show "finite (S \<union> {Max (S \<union> T)})" using assms by simp
  show "Max (S \<union> T) \<in> S \<union> {Max (S \<union> T)}" by simp
  fix y assume "y \<in> S \<union> {Max (S \<union> T)}"
  with assms show "y \<le> Max (S \<union> T)" by auto
qed

lemma xValues_ge_start: "x \<in> set (xValues p) \<Longrightarrow> plot_start p \<le> x"
  by (auto simp: set_xValues)

lemma sampled_ge:
  assumes "finite P" and "p \<in> P" and "x \<in> set (xValues p)" and "finite T"
  shows "degree p x \<le> Max (sampled P x \<union> T)"
proof -
  from assms(2,3) have "degree p x \<in> sampled P x \<union> T"
    by (auto simp: sampled_degree)
  moreover from assms(1,4) have "finite (sampled P x \<union> T)"
    by (simp add: finite_sampled)
  ultimately show ?thesis by (rule Max_ge [rotated])
qed

lemma sampled_set_Nil: "sampled (set []) z = {}"
  by (simp add: sampled_def)

section \<open>The membership function\<close>

text \<open>
  Claim C2, as amended. For sorted breakpoints \<open>a \<le> b \<le> c \<le> d\<close>: \<^verbatim>\<open>membership\<close> is 0
  for \<open>x < a\<close> and for \<open>x > d\<close>; it is 1 at \<open>b\<close> and at \<open>c\<close>; it is 0 at \<open>a\<close> when
  \<open>a < b\<close> and 0 at \<open>d\<close> when \<open>c < d\<close>; it is non-decreasing on \<open>[a, b]\<close> and
  non-increasing on \<open>[c, d]\<close>. (At a vertical edge the plateau branch wins: the value at
  \<open>a = b\<close>, and at \<open>c = d\<close>, is 1.)
\<close>

theorem membership_sorted_shape:
  assumes "coords p = (a, b, c, d)" and "a \<le> b" and "b \<le> c" and "c \<le> d"
  shows "(\<forall>x. x < a \<or> d < x \<longrightarrow> membership p x = Inr (Some 0)) \<and>
         (a < b \<longrightarrow> membership p a = Inr (Some 0)) \<and>
         membership p b = Inr (Some 1) \<and>
         membership p c = Inr (Some 1) \<and>
         (c < d \<longrightarrow> membership p d = Inr (Some 0)) \<and>
         (\<forall>x y. a \<le> x \<and> x \<le> y \<and> y \<le> b \<longrightarrow>
            (\<exists>u v. membership p x = Inr (Some u) \<and> membership p y = Inr (Some v) \<and> u \<le> v)) \<and>
         (\<forall>x y. c \<le> x \<and> x \<le> y \<and> y \<le> d \<longrightarrow>
            (\<exists>u v. membership p x = Inr (Some u) \<and> membership p y = Inr (Some v) \<and> v \<le> u))"
proof -
  have outside: "\<forall>x. x < a \<or> d < x \<longrightarrow> membership p x = Inr (Some 0)"
    using assms by (auto simp: membership_def)
  have at_a: "a < b \<longrightarrow> membership p a = Inr (Some 0)"
    using assms by (simp add: membership_def)
  have at_b: "membership p b = Inr (Some 1)"
    using assms by (simp add: membership_def)
  have at_c: "membership p c = Inr (Some 1)"
    using assms by (simp add: membership_def)
  have at_d: "c < d \<longrightarrow> membership p d = Inr (Some 0)"
    using assms by (simp add: membership_def)
  have rise: "\<forall>x y. a \<le> x \<and> x \<le> y \<and> y \<le> b \<longrightarrow>
      (\<exists>u v. membership p x = Inr (Some u) \<and> membership p y = Inr (Some v) \<and> u \<le> v)"
    using degree_sorted_rise [OF assms] by (simp add: membership_degree)
  have fall: "\<forall>x y. c \<le> x \<and> x \<le> y \<and> y \<le> d \<longrightarrow>
      (\<exists>u v. membership p x = Inr (Some u) \<and> membership p y = Inr (Some v) \<and> v \<le> u)"
    using degree_sorted_fall [OF assms] by (simp add: membership_degree)
  from outside at_a at_b at_c at_d rise fall show ?thesis by blast
qed

theorem membership_sorted_shape_witness:
  "membership \<lparr>label = ''Low temperature'', coords = (39, 40, 57, 65)\<rparr> 38 = Inr (Some 0) \<and>
   membership \<lparr>label = ''Low temperature'', coords = (39, 40, 57, 65)\<rparr> 70 = Inr (Some 0) \<and>
   membership \<lparr>label = ''Low temperature'', coords = (39, 40, 57, 65)\<rparr> 39 = Inr (Some 0) \<and>
   membership \<lparr>label = ''Low temperature'', coords = (39, 40, 57, 65)\<rparr> 40 = Inr (Some 1) \<and>
   membership \<lparr>label = ''Low temperature'', coords = (39, 40, 57, 65)\<rparr> 57 = Inr (Some 1) \<and>
   membership \<lparr>label = ''Low temperature'', coords = (39, 40, 57, 65)\<rparr> 65 = Inr (Some 0) \<and>
   (\<exists>u v. membership \<lparr>label = ''Low temperature'', coords = (39, 40, 57, 65)\<rparr> 58 = Inr (Some u) \<and>
          membership \<lparr>label = ''Low temperature'', coords = (39, 40, 57, 65)\<rparr> 60 = Inr (Some v) \<and>
          v \<le> u)"
proof -
  let ?p = "\<lparr>label = ''Low temperature'', coords = (39, 40, 57, 65)\<rparr>"
  have shape: "(\<forall>x. x < 39 \<or> 65 < x \<longrightarrow> membership ?p x = Inr (Some 0)) \<and>
         ((39::real) < 40 \<longrightarrow> membership ?p 39 = Inr (Some 0)) \<and>
         membership ?p 40 = Inr (Some 1) \<and>
         membership ?p 57 = Inr (Some 1) \<and>
         ((57::real) < 65 \<longrightarrow> membership ?p 65 = Inr (Some 0)) \<and>
         (\<forall>x y. 39 \<le> x \<and> x \<le> y \<and> y \<le> 40 \<longrightarrow>
            (\<exists>u v. membership ?p x = Inr (Some u) \<and> membership ?p y = Inr (Some v) \<and> u \<le> v)) \<and>
         (\<forall>x y. 57 \<le> x \<and> x \<le> y \<and> y \<le> 65 \<longrightarrow>
            (\<exists>u v. membership ?p x = Inr (Some u) \<and> membership ?p y = Inr (Some v) \<and> v \<le> u))"
    using membership_sorted_shape [of ?p 39 40 57 65] by simp
  from shape have falling: "57 \<le> x \<and> x \<le> y \<and> y \<le> 65 \<Longrightarrow>
      \<exists>u v. membership ?p x = Inr (Some u) \<and> membership ?p y = Inr (Some v) \<and> v \<le> u" for x y
    by blast
  from falling [of 58 60] have fall: "\<exists>u v. membership ?p 58 = Inr (Some u) \<and>
      membership ?p 60 = Inr (Some v) \<and> v \<le> u"
    by simp
  from shape have "membership ?p 38 = Inr (Some 0)" "membership ?p 70 = Inr (Some 0)"
    "membership ?p 39 = Inr (Some 0)" "membership ?p 40 = Inr (Some 1)"
    "membership ?p 57 = Inr (Some 1)" "membership ?p 65 = Inr (Some 0)"
    by simp_all
  with fall show ?thesis by blast
qed

text \<open>
  The claim as stated asks for 0 at \<open>a\<close> and at \<open>d\<close> for all sorted breakpoints; for
  \<open>(0, 0, 1, 1)\<close> the value at both is 1.
\<close>

theorem membership_degenerate_endpoint_counterexample:
  "(0::real) \<le> 0 \<and> (0::real) \<le> 1 \<and> (1::real) \<le> 1 \<and>
   membership \<lparr>label = ''step'', coords = (0, 0, 1, 1)\<rparr> 0 = Inr (Some 1) \<and>
   membership \<lparr>label = ''step'', coords = (0, 0, 1, 1)\<rparr> 0 \<noteq> Inr (Some 0) \<and>
   membership \<lparr>label = ''step'', coords = (0, 0, 1, 1)\<rparr> 1 = Inr (Some 1) \<and>
   membership \<lparr>label = ''step'', coords = (0, 0, 1, 1)\<rparr> 1 \<noteq> Inr (Some 0)"
  by (simp add: membership_def)


text \<open>
  Claim C5, as amended. \<^verbatim>\<open>membership\<close> never divides by zero, for any breakpoints and any
  \<open>x\<close>. When \<open>a = b\<close> the rising branch is taken by no input, the value at \<open>a\<close> is 1 and
  the value below \<open>a\<close> is 0. When \<open>c = d\<close> the falling branch is taken by no input, the
  value at \<open>d\<close> is still 1 and the value above \<open>d\<close> is 0.
\<close>

theorem membership_never_divides_by_zero:
  "membership p x \<noteq> Inl ZeroDivisionError \<and>
   (coords p = (a, a, c, d) \<and> a \<le> c \<and> c \<le> d \<longrightarrow>
      (\<forall>z. membership_branch p z \<noteq> Rising) \<and> membership p a = Inr (Some 1) \<and>
      (\<forall>z<a. membership p z = Inr (Some 0))) \<and>
   (coords p = (a', b', d', d') \<and> a' \<le> b' \<and> b' \<le> d' \<longrightarrow>
      (\<forall>z. membership_branch p z \<noteq> Falling) \<and> membership p d' = Inr (Some 1) \<and>
      (\<forall>z>d'. membership p z = Inr (Some 0)))"
proof -
  have no_div: "membership p x \<noteq> Inl ZeroDivisionError"
    by (simp add: membership_degree)
  have up: "coords p = (a, a, c, d) \<and> a \<le> c \<and> c \<le> d \<longrightarrow>
      (\<forall>z. membership_branch p z \<noteq> Rising) \<and> membership p a = Inr (Some 1) \<and>
      (\<forall>z<a. membership p z = Inr (Some 0))"
    by (auto simp: membership_def membership_branch_def)
  have down: "coords p = (a', b', d', d') \<and> a' \<le> b' \<and> b' \<le> d' \<longrightarrow>
      (\<forall>z. membership_branch p z \<noteq> Falling) \<and> membership p d' = Inr (Some 1) \<and>
      (\<forall>z>d'. membership p z = Inr (Some 0))"
    by (auto simp: membership_def membership_branch_def)
  from no_div up down show ?thesis by blast
qed

theorem membership_never_divides_by_zero_witness:
  "membership \<lparr>label = ''step'', coords = (2, 2, 5, 5)\<rparr> 3 \<noteq> Inl ZeroDivisionError \<and>
   membership_branch \<lparr>label = ''step'', coords = (2, 2, 5, 5)\<rparr> 2 \<noteq> Rising \<and>
   membership \<lparr>label = ''step'', coords = (2, 2, 5, 5)\<rparr> 2 = Inr (Some 1) \<and>
   membership \<lparr>label = ''step'', coords = (2, 2, 5, 5)\<rparr> 1 = Inr (Some 0) \<and>
   membership_branch \<lparr>label = ''step'', coords = (2, 2, 5, 5)\<rparr> 5 \<noteq> Falling \<and>
   membership \<lparr>label = ''step'', coords = (2, 2, 5, 5)\<rparr> 5 = Inr (Some 1) \<and>
   membership \<lparr>label = ''step'', coords = (2, 2, 5, 5)\<rparr> 6 = Inr (Some 0)"
  using membership_never_divides_by_zero
    [of "\<lparr>label = ''step'', coords = (2, 2, 5, 5)\<rparr>" 3 2 5 5 2 2 5]
  by simp

text \<open>With \<open>c = d\<close> the value at \<open>d\<close> is 1, not 0: the plateau branch includes \<open>c\<close>.\<close>

theorem membership_step_down_counterexample:
  "membership \<lparr>label = ''step down'', coords = (0, 1, 2, 2)\<rparr> 2 = Inr (Some 1) \<and>
   membership \<lparr>label = ''step down'', coords = (0, 1, 2, 2)\<rparr> 2 \<noteq> Inr (Some 0)"
  by (simp add: membership_def)

text \<open>
  Claim C8. For a plot whose breakpoints are sorted, \<open>a \<le> b \<le> c \<le> d\<close>, the accessors are
  \<^verbatim>\<open>start\<close> \<open>= a\<close>, \<^verbatim>\<open>end\<close> \<open>= d\<close> and \<^verbatim>\<open>size\<close> \<open>= d - a\<close>.
\<close>

theorem plot_accessors_sorted:
  assumes "coords p = (a, b, c, d)" and "a \<le> b" and "b \<le> c" and "c \<le> d"
  shows "plot_start p = a \<and> plot_end p = d \<and> plot_size p = d - a"
  using assms by (simp add: plot_start_def plot_end_def plot_size_def)

theorem plot_accessors_sorted_witness:
  "plot_start \<lparr>label = ''Low temperature'', coords = (39, 40, 57, 65)\<rparr> = 39 \<and>
   plot_end \<lparr>label = ''Low temperature'', coords = (39, 40, 57, 65)\<rparr> = 65 \<and>
   plot_size \<lparr>label = ''Low temperature'', coords = (39, 40, 57, 65)\<rparr> = 26"
  using plot_accessors_sorted
    [of "\<lparr>label = ''Low temperature'', coords = (39, 40, 57, 65)\<rparr>" 39 40 57 65]
  by simp

section \<open>The sample sequence of a plot\<close>

text \<open>
  Claim C3, as amended. For a plot whose breakpoints are integers (of magnitude at most
  \<open>2 ^ 52\<close>, so that the doubles and their differences are exact), the sample sequence
  consists of the integer points from \<^verbatim>\<open>start\<close> up to but not including
  \<^verbatim>\<open>start + size\<close>: exactly \<^verbatim>\<open>size\<close> points, the \<open>i\<close>-th being \<^verbatim>\<open>start\<close> \<open>+ i\<close>.
\<close>

theorem xValues_integer_breakpoints:
  assumes "coords p = (real_of_int a, real_of_int b, real_of_int c, real_of_int d)"
    and "max (max \<bar>a\<bar> \<bar>b\<bar>) (max \<bar>c\<bar> \<bar>d\<bar>) \<le> 2 ^ 52"
  shows "set (xValues p) = {x \<in> \<int>. plot_start p \<le> x \<and> x < plot_start p + plot_size p} \<and>
         real (length (xValues p)) = plot_size p \<and>
         (\<forall>i<length (xValues p). xValues p ! i = plot_start p + real i)"
proof -
  define s where "s = min a (min b (min c d))"
  define e where "e = max a (max b (max c d))"
  have start: "plot_start p = real_of_int s"
    by (simp add: plot_start_def assms(1) s_def of_int_min)
  have size: "plot_size p = real_of_int (e - s)"
    by (simp add: plot_size_def plot_end_def plot_start_def assms(1) s_def e_def of_int_max of_int_min)
  have "s \<le> e"
    by (simp add: s_def e_def)
  have len: "length (xValues p) = nat (e - s)"
    by (simp add: length_xValues size)
  have pts: "set (xValues p) = {x \<in> \<int>. plot_start p \<le> x \<and> x < plot_start p + plot_size p}"
  proof (intro set_eqI iffI)
    fix x assume "x \<in> set (xValues p)"
    then obtain k where k: "k < nat (e - s)" "x = real_of_int s + real k"
      by (auto simp: set_xValues start size)
    then have "x = real_of_int (s + int k)" "s + int k < e"
      by simp_all
    then show "x \<in> {x \<in> \<int>. plot_start p \<le> x \<and> x < plot_start p + plot_size p}"
      unfolding start size by simp
  next
    fix x assume "x \<in> {x \<in> \<int>. plot_start p \<le> x \<and> x < plot_start p + plot_size p}"
    then obtain z :: int where z: "x = real_of_int z" "s \<le> z" "z < e"
      unfolding start size by (auto elim!: Ints_cases)
    then have "nat (z - s) < nat (e - s)" "x = real_of_int s + real (nat (z - s))"
      by simp_all
    then show "x \<in> set (xValues p)"
      unfolding set_xValues start size by (auto simp del: of_nat_nat)
  qed
  have count: "real (length (xValues p)) = plot_size p"
    using \<open>s \<le> e\<close> by (simp add: len size)
  have nth: "\<forall>i<length (xValues p). xValues p ! i = plot_start p + real i"
    by (simp add: nth_xValues)
  from pts count nth show ?thesis by blast
qed

theorem xValues_integer_breakpoints_witness:
  "set (xValues \<lparr>label = ''Low temperature'', coords = (39, 40, 57, 65)\<rparr>) =
     {x \<in> \<int>. 39 \<le> x \<and> x < 65} \<and>
   real (length (xValues \<lparr>label = ''Low temperature'', coords = (39, 40, 57, 65)\<rparr>)) = 26 \<and>
   xValues \<lparr>label = ''Low temperature'', coords = (39, 40, 57, 65)\<rparr> ! 25 = 64"
proof -
  let ?p = "\<lparr>label = ''Low temperature'', coords = (39, 40, 57, 65)\<rparr>"
  have start: "plot_start ?p = 39" and size: "plot_size ?p = 26"
    by (simp_all add: plot_size_def plot_start_def plot_end_def)
  have bound: "max (max \<bar>39\<bar> \<bar>40\<bar>) (max \<bar>57\<bar> \<bar>65::int\<bar>) \<le> 2 ^ 52"
    by simp
  from xValues_integer_breakpoints [of ?p 39 40 57 65, OF _ bound] have seq:
    "set (xValues ?p) = {x \<in> \<int>. 39 \<le> x \<and> x < 65}"
    "real (length (xValues ?p)) = 26"
    "\<forall>i<length (xValues ?p). xValues ?p ! i = 39 + real i"
    by (simp_all add: start size)
  from seq(2) have "length (xValues ?p) = 26"
    by linarith
  with seq(3) have "xValues ?p ! 25 = 64"
    by simp
  with seq show ?thesis by simp
qed

text \<open>
  For the breakpoints \<open>(1/2, 1, 2, 3)\<close> the points are \<open>1/2, 3/2, 5/2\<close>: they are not
  integers, and there are three of them while \<^verbatim>\<open>size\<close> is \<open>5/2\<close>.
\<close>

theorem xValues_fractional_counterexample:
  "xValues \<lparr>label = ''half'', coords = (1/2, 1, 2, 3)\<rparr> = [1/2, 3/2, 5/2] \<and>
   plot_start \<lparr>label = ''half'', coords = (1/2, 1, 2, 3)\<rparr> = 1/2 \<and>
   plot_size \<lparr>label = ''half'', coords = (1/2, 1, 2, 3)\<rparr> = 5/2 \<and>
   real (length (xValues \<lparr>label = ''half'', coords = (1/2, 1, 2, 3)\<rparr>))
     \<noteq> plot_size \<lparr>label = ''half'', coords = (1/2, 1, 2, 3)\<rparr> \<and>
   (1/2 :: real) \<notin> \<int>"
  by (simp add: xValues_def arange_def plot_size_def plot_start_def plot_end_def upt_conv_Cons)

section \<open>Aggregation by create\<close>

text \<open>
  Claim C1, as amended. After \<^verbatim>\<open>create\<close> has run on a layout with an empty dictionary,
  the keys of \<^verbatim>\<open>values\<close> are the sample points of the plots, and for every key \<open>x\<close>
  the entry is the maximum of \<^verbatim>\<open>f.membership(x)\<close> over the plots \<open>f\<close> whose own sample
  sequence contains \<open>x\<close>. A plot that does not sample \<open>x\<close> is skipped, whether or not
  its support covers \<open>x\<close>.
\<close>

theorem create_table_is_sampled_max:
  assumes "set order = plots l" and "layout_values l = Map.empty"
  shows "\<exists>l'. create l order = Inr l' \<and>
           dom (layout_values l') = (\<Union>p\<in>plots l. set (xValues p)) \<and>
           (\<forall>x\<in>dom (layout_values l').
              layout_values l' x = Some (Some (Max (sampled (plots l) x))))"
proof -
  define T :: table where
    "T = (\<lambda>z. if sampled (plots l) z = {} then None else Some (Some (Max (sampled (plots l) z))))"
  have "T = (\<lambda>z. if sampled (plots l) z = {} then layout_values l z
        else Some (Some (Max (sampled (plots l) z \<union> set_option (dict_get (layout_values l) z)))))"
    by (rule ext) (simp add: T_def assms(2) dict_get_def)
  then have "create l order = Inr (l\<lparr>layout_values := T\<rparr>)"
    by (simp only: create_eq_set [OF assms(1)])
  moreover have "dom T = (\<Union>p\<in>plots l. set (xValues p))"
    by (auto simp: T_def dom_def sampled_empty_iff)
  moreover have "\<forall>x\<in>dom T. T x = Some (Some (Max (sampled (plots l) x)))"
    by (auto simp: T_def dom_def)
  ultimately show ?thesis by simp
qed

theorem create_table_is_sampled_max_witness:
  "\<exists>l'. create
      (add (add (new_Layout ''grid'' 0 4) \<lparr>label = ''one'', coords = (0, 1, 2, 3)\<rparr>)
         \<lparr>label = ''two'', coords = (1/2, 3/2, 5/2, 7/2)\<rparr>)
      [\<lparr>label = ''two'', coords = (1/2, 3/2, 5/2, 7/2)\<rparr>,
       \<lparr>label = ''one'', coords = (0, 1, 2, 3)\<rparr>] = Inr l' \<and>
    dom (layout_values l') = {0, 1, 2, 1/2, 3/2, 5/2} \<and>
    layout_values l' 1 = Some (Some 1)"
proof -
  let ?one = "\<lparr>label = ''one'', coords = (0, 1, 2, 3)\<rparr>"
  let ?two = "\<lparr>label = ''two'', coords = (1/2, 3/2, 5/2, 7/2)\<rparr>"
  let ?l = "add (add (new_Layout ''grid'' 0 4) ?one) ?two"
  have pl: "plots ?l = set [?two, ?one]"
    and vals: "layout_values ?l = Map.empty"
    by (simp_all add: add_def new_Layout_def)
  have x1: "xValues ?one = [0, 1, 2]" and x2: "xValues ?two = [1/2, 3/2, 5/2]"
    by (simp_all add: xValues_def arange_def plot_size_def plot_start_def plot_end_def
        upt_conv_Cons)
  have "degree ?one 1 = 1"
    by (simp add: degree_def)
  then have s: "sampled (plots ?l) 1 = {1}"
    unfolding pl by (simp add: sampled_set_Cons sampled_set_Nil x1 x2 del: set_simps) simp
  from create_table_is_sampled_max [of "[?two, ?one]" ?l] pl vals
  obtain l' where l': "create ?l [?two, ?one] = Inr l'"
    "dom (layout_values l') = (\<Union>p\<in>plots ?l. set (xValues p))"
    "\<forall>x\<in>dom (layout_values l'). layout_values l' x = Some (Some (Max (sampled (plots ?l) x)))"
    by auto
  from l'(2) have d: "dom (layout_values l') = {0, 1, 2, 1/2, 3/2, 5/2}"
    unfolding pl by (auto simp: x1 x2)
  with l'(3) s have "layout_values l' 1 = Some (Some 1)"
    by simp
  with l'(1) d show ?thesis by blast
qed

text \<open>
  The claim as stated takes the maximum over all plots. With the sorted breakpoints
  \<open>(0, 1, 2, 3)\<close> and \<open>(1/2, 3/2, 5/2, 7/2)\<close> the sample grids do not coincide: the entry
  at \<open>1/2\<close> is 0, the degree of the second plot, while the first plot has degree \<open>1/2\<close>
  there.
\<close>

theorem create_skips_unsampled_cover_counterexample:
  "create_then_get
      (add (add (new_Layout ''grid'' 0 4) \<lparr>label = ''one'', coords = (0, 1, 2, 3)\<rparr>)
         \<lparr>label = ''two'', coords = (1/2, 3/2, 5/2, 7/2)\<rparr>)
      [\<lparr>label = ''two'', coords = (1/2, 3/2, 5/2, 7/2)\<rparr>,
       \<lparr>label = ''one'', coords = (0, 1, 2, 3)\<rparr>] (1/2) = Inr (Some 0) \<and>
   membership \<lparr>label = ''one'', coords = (0, 1, 2, 3)\<rparr> (1/2) = Inr (Some (1/2)) \<and>
   membership \<lparr>label = ''two'', coords = (1/2, 3/2, 5/2, 7/2)\<rparr> (1/2) = Inr (Some 0)"
  by (simp add: create_then_get_def create_def add_def new_Layout_def
      xValues_def arange_def plot_size_def plot_start_def plot_end_def upt_conv_Cons
      visit_def membership_def dict_get_def)

text \<open>
  Claim C6. Whatever the order in which \<^verbatim>\<open>create\<close> iterates over the set of plots, it
  returns, and the resulting layout (hence the dictionary \<^verbatim>\<open>values\<close>) is the same.
\<close>

theorem create_order_independent:
  assumes "set order1 = plots l" and "set order2 = plots l"
  shows "\<exists>l'. create l order1 = Inr l' \<and> create l order2 = Inr l'"
  by (simp add: create_eq_set [OF assms(1)] create_eq_set [OF assms(2)])

theorem create_order_independent_witness:
  "\<exists>l'. create
      (add (add (new_Layout ''grid'' 0 4) \<lparr>label = ''one'', coords = (0, 1, 2, 3)\<rparr>)
         \<lparr>label = ''two'', coords = (1, 2, 3, 4)\<rparr>)
      [\<lparr>label = ''one'', coords = (0, 1, 2, 3)\<rparr>,
       \<lparr>label = ''two'', coords = (1, 2, 3, 4)\<rparr>] = Inr l' \<and>
    create
      (add (add (new_Layout ''grid'' 0 4) \<lparr>label = ''one'', coords = (0, 1, 2, 3)\<rparr>)
         \<lparr>label = ''two'', coords = (1, 2, 3, 4)\<rparr>)
      [\<lparr>label = ''two'', coords = (1, 2, 3, 4)\<rparr>,
       \<lparr>label = ''one'', coords = (0, 1, 2, 3)\<rparr>] = Inr l'"
proof -
  let ?one = "\<lparr>label = ''one'', coords = (0, 1, 2, 3)\<rparr>"
  let ?two = "\<lparr>label = ''two'', coords = (1, 2, 3, 4)\<rparr>"
  let ?l = "add (add (new_Layout ''grid'' 0 4) ?one) ?two"
  have "set [?one, ?two] = plots ?l" and "set [?two, ?one] = plots ?l"
    by (auto simp: add_def new_Layout_def)
  then show ?thesis
    by (rule create_order_independent)
qed

text \<open>
  Claim C7. Running \<^verbatim>\<open>create\<close> a second time on the same set of plots, starting from the
  dictionary that the first run produced, returns the layout of the first run unchanged.
\<close>

theorem create_idempotent:
  assumes "set order1 = plots l" and "set order2 = plots l"
  shows "\<exists>l1. create l order1 = Inr l1 \<and> create l1 order2 = Inr l1"
proof -
  define T1 :: table where
    "T1 = (\<lambda>z. if sampled (plots l) z = {} then layout_values l z
        else Some (Some (Max (sampled (plots l) z \<union> set_option (dict_get (layout_values l) z)))))"
  have "finite (plots l)"
    unfolding assms(1) [symmetric] by simp
  then have fin: "finite (sampled (plots l) z)" for z
    by (rule finite_sampled)
  have first: "create l order1 = Inr (l\<lparr>layout_values := T1\<rparr>)"
    by (simp only: create_eq_set [OF assms(1)] T1_def)
  have "(if sampled (plots l) z = {} then T1 z
         else Some (Some (Max (sampled (plots l) z \<union> set_option (dict_get T1 z))))) = T1 z" for z
  proof (cases "sampled (plots l) z = {}")
    case True
    then show ?thesis by simp
  next
    case False
    with Max_absorb_Max [OF fin False, of "set_option (dict_get (layout_values l) z)"]
    show ?thesis by (simp add: T1_def dict_get_def)
  qed
  then have "create (l\<lparr>layout_values := T1\<rparr>) order2 = Inr (l\<lparr>layout_values := T1\<rparr>)"
    by (simp add: create_eq_set [OF assms(2)] cong: if_cong)
  with first show ?thesis by simp
qed

theorem create_idempotent_witness:
  "\<exists>l1. create
      (add (add (new_Layout ''grid'' 0 4) \<lparr>label = ''one'', coords = (0, 1, 2, 3)\<rparr>)
         \<lparr>label = ''two'', coords = (1, 2, 3, 4)\<rparr>)
      [\<lparr>label = ''one'', coords = (0, 1, 2, 3)\<rparr>,
       \<lparr>label = ''two'', coords = (1, 2, 3, 4)\<rparr>] = Inr l1 \<and>
    create l1
      [\<lparr>label = ''two'', coords = (1, 2, 3, 4)\<rparr>,
       \<lparr>label = ''one'', coords = (0, 1, 2, 3)\<rparr>] = Inr l1"
proof -
  let ?one = "\<lparr>label = ''one'', coords = (0, 1, 2, 3)\<rparr>"
  let ?two = "\<lparr>label = ''two'', coords = (1, 2, 3, 4)\<rparr>"
  let ?l = "add (add (new_Layout ''grid'' 0 4) ?one) ?two"
  have "set [?one, ?two] = plots ?l" and "set [?two, ?one] = plots ?l"
    by (auto simp: add_def new_Layout_def)
  then show ?thesis
    by (rule create_idempotent)
qed

text \<open>
  Claim C9. The dictionary is not clipped to the domain \<open>[start, end]\<close> of the layout: an
  integer point below \<^verbatim>\<open>start\<close> that lies on the sample sequence of one of the plots is a
  key of \<^verbatim>\<open>values\<close> after \<^verbatim>\<open>create\<close>, and the lookup of \<^verbatim>\<open>onTextChanged\<close> returns
  its aggregated degree, not \<^verbatim>\<open>None\<close>. For the Water Temperature layout (start 40, Low
  temperature \<open>(39, 40, 57, 65)\<close>) the lookup at 39 returns 0.
\<close>

theorem create_not_clipped_to_domain:
  assumes "set order = plots l" and "layout_values l = Map.empty"
    and "p \<in> plots l" and "real_of_int k \<in> set (xValues p)"
    and "real_of_int k < layout_start l"
  shows "\<exists>l'. create l order = Inr l' \<and> real_of_int k \<in> dom (layout_values l') \<and>
           lookup l' k = Some (Max (sampled (plots l) (real_of_int k)))"
proof -
  from assms(3,4) have ne: "sampled (plots l) (real_of_int k) \<noteq> {}"
    by (auto simp: sampled_empty_iff)
  then show ?thesis
    by (simp add: create_eq_set [OF assms(1)] assms(2) lookup_def dict_get_def dom_def)
qed

theorem create_not_clipped_to_domain_witness:
  "(39::real) < layout_start (water_layout (\<lambda>s. s)) \<and>
   (\<exists>l'. create (water_layout (\<lambda>s. s))
      [\<lparr>label = ''High temperature'', coords = (78, 83, 105, 106)\<rparr>,
       \<lparr>label = ''Medium temperature'', coords = (55, 60, 79, 83)\<rparr>,
       \<lparr>label = ''Low temperature'', coords = (39, 40, 57, 65)\<rparr>] = Inr l' \<and>
      lookup l' 39 = Some 0)"
proof -
  let ?high = "\<lparr>label = ''High temperature'', coords = (78, 83, 105, 106)\<rparr>"
  let ?medium = "\<lparr>label = ''Medium temperature'', coords = (55, 60, 79, 83)\<rparr>"
  let ?low = "\<lparr>label = ''Low temperature'', coords = (39, 40, 57, 65)\<rparr>"
  let ?w = "water_layout (\<lambda>s. s)"
  have pl: "plots ?w = set [?high, ?medium, ?low]"
    by (simp add: water_layout_def water_plotsData_def make_Plot_def add_def new_Layout_def)
  have vals: "layout_values ?w = Map.empty" and start: "layout_start ?w = 40"
    by (simp_all add: water_layout_def water_plotsData_def make_Plot_def add_def new_Layout_def)
  have in_low: "real_of_int 39 \<in> set (xValues ?low)"
    by (simp add: set_xValues plot_start_def plot_size_def plot_end_def image_iff)
  have not_medium: "39 \<notin> set (xValues ?medium)"
    using xValues_ge_start [of 39 ?medium] by (auto simp: plot_start_def)
  have not_high: "39 \<notin> set (xValues ?high)"
    using xValues_ge_start [of 39 ?high] by (auto simp: plot_start_def)
  have "degree ?low 39 = 0"
    by (simp add: degree_def)
  with in_low not_medium not_high have "sampled (plots ?w) 39 = {0}"
    unfolding pl by (simp add: sampled_set_Cons sampled_set_Nil del: set_simps)
  with create_not_clipped_to_domain [of "[?high, ?medium, ?low]" ?w ?low 39] pl vals start in_low
  show ?thesis by auto
qed

text \<open>
  Claim C10. \<^verbatim>\<open>plots\<close> is a set of records compared by value. Adding a plot whose label
  and breakpoints both equal those of a plot already added leaves the layout unchanged, and
  with it the result of \<^verbatim>\<open>create\<close>. A plot that differs in its label or in its
  breakpoints is a second element of the set, and both take part in the aggregation: after
  \<^verbatim>\<open>create\<close>, the entry at each sample point of either plot is at least that plot's degree.
\<close>

theorem add_identical_plot_idempotent:
  assumes "set order1 = plots (add l p)" and "set order2 = plots (add (add l p) q)"
  shows "(label q = label p \<and> coords q = coords p \<longrightarrow>
            add (add l p) q = add l p \<and>
            create (add (add l p) q) order2 = create (add l p) order1) \<and>
         (label q \<noteq> label p \<or> coords q \<noteq> coords p \<longrightarrow>
            p \<noteq> q \<and> {p, q} \<subseteq> plots (add (add l p) q) \<and>
            card (plots (add (add (new_Layout t s e) p) q)) = 2 \<and>
            (\<exists>l'. create (add (add l p) q) order2 = Inr l' \<and>
               (\<forall>r\<in>{p, q}. \<forall>x\<in>set (xValues r). \<exists>u v.
                  membership r x = Inr (Some u) \<and>
                  dict_get (layout_values l') x = Some v \<and> u \<le> v)))"
proof -
  have same: "label q = label p \<and> coords q = coords p \<longrightarrow>
      add (add l p) q = add l p \<and> create (add (add l p) q) order2 = create (add l p) order1"
  proof
    assume "label q = label p \<and> coords q = coords p"
    then have "q = p" by simp
    then have eq: "add (add l p) q = add l p"
      by (simp add: add_def)
    with assms have "set order2 = plots (add l p)" by simp
    from create_eq_set [OF this] create_eq_set [OF assms(1)] eq
    show "add (add l p) q = add l p \<and> create (add (add l p) q) order2 = create (add l p) order1"
      by simp
  qed
  have differ: "label q \<noteq> label p \<or> coords q \<noteq> coords p \<longrightarrow>
      p \<noteq> q \<and> {p, q} \<subseteq> plots (add (add l p) q) \<and>
      card (plots (add (add (new_Layout t s e) p) q)) = 2"
  proof
    assume "label q \<noteq> label p \<or> coords q \<noteq> coords p"
    then have "p \<noteq> q" by auto
    then have "card {q, p} = 2" by auto
    with \<open>p \<noteq> q\<close> show "p \<noteq> q \<and> {p, q} \<subseteq> plots (add (add l p) q) \<and>
        card (plots (add (add (new_Layout t s e) p) q)) = 2"
      by (simp add: add_def new_Layout_def)
  qed
  have fin: "finite (plots (add (add l p) q))"
    unfolding assms(2) [symmetric] by simp
  have part: "\<exists>u v. membership r x = Inr (Some u) \<and>
      dict_get (layout_values l') x = Some v \<and> u \<le> v"
    if "create (add (add l p) q) order2 = Inr l'" and "r \<in> {p, q}" and "x \<in> set (xValues r)"
    for l' r x
  proof -
    from that(2) have r: "r \<in> plots (add (add l p) q)"
      by (auto simp: add_def)
    with that(3) have ne: "sampled (plots (add (add l p) q)) x \<noteq> {}"
      by (auto simp: sampled_empty_iff)
    define m where "m = Max (sampled (plots (add (add l p) q)) x \<union>
        set_option (dict_get (layout_values (add (add l p) q)) x))"
    from that(1) have "create (add (add l p) q) order2 = Inr l'" .
    then have "layout_values l' =
        (\<lambda>z. if sampled (plots (add (add l p) q)) z = {}
             then layout_values (add (add l p) q) z
             else Some (Some (Max (sampled (plots (add (add l p) q)) z \<union>
               set_option (dict_get (layout_values (add (add l p) q)) z)))))"
      unfolding create_eq_set [OF assms(2)] by auto
    with ne have "layout_values l' x = Some (Some m)"
      by (simp add: m_def)
    then have "dict_get (layout_values l') x = Some m"
      by (simp add: dict_get_def)
    moreover have "degree r x \<le> m"
      unfolding m_def by (rule sampled_ge [OF fin r that(3)]) simp
    ultimately show ?thesis
      by (simp add: membership_degree)
  qed
  obtain l' where made: "create (add (add l p) q) order2 = Inr l'"
    by (simp add: create_eq_set [OF assms(2)])
  from part [OF made] have "\<forall>r\<in>{p, q}. \<forall>x\<in>set (xValues r). \<exists>u v.
      membership r x = Inr (Some u) \<and> dict_get (layout_values l') x = Some v \<and> u \<le> v"
    by blast
  with made have both: "\<exists>l'. create (add (add l p) q) order2 = Inr l' \<and>
      (\<forall>r\<in>{p, q}. \<forall>x\<in>set (xValues r). \<exists>u v.
          membership r x = Inr (Some u) \<and> dict_get (layout_values l') x = Some v \<and> u \<le> v)"
    by blast
  from same differ both show ?thesis by blast
qed

theorem add_identical_plot_idempotent_witness:
  "add (add (new_Layout ''grid'' 0 4) \<lparr>label = ''one'', coords = (0, 1, 2, 3)\<rparr>)
       \<lparr>label = ''one'', coords = (0, 1, 2, 3)\<rparr> =
   add (new_Layout ''grid'' 0 4) \<lparr>label = ''one'', coords = (0, 1, 2, 3)\<rparr> \<and>
   create (add (add (new_Layout ''grid'' 0 4) \<lparr>label = ''one'', coords = (0, 1, 2, 3)\<rparr>)
       \<lparr>label = ''one'', coords = (0, 1, 2, 3)\<rparr>) [\<lparr>label = ''one'', coords = (0, 1, 2, 3)\<rparr>] =
   create (add (new_Layout ''grid'' 0 4) \<lparr>label = ''one'', coords = (0, 1, 2, 3)\<rparr>)
       [\<lparr>label = ''one'', coords = (0, 1, 2, 3)\<rparr>] \<and>
   card (plots (add (add (new_Layout ''grid'' 0 4) \<lparr>label = ''one'', coords = (0, 1, 2, 3)\<rparr>)
       \<lparr>label = ''uno'', coords = (0, 1, 2, 3)\<rparr>)) = 2"
proof -
  let ?one = "\<lparr>label = ''one'', coords = (0, 1, 2, 3)\<rparr>"
  let ?uno = "\<lparr>label = ''uno'', coords = (0, 1, 2, 3)\<rparr>"
  let ?l = "new_Layout ''grid'' 0 4"
  have o1: "set [?one] = plots (add ?l ?one)"
    and o2: "set [?one] = plots (add (add ?l ?one) ?one)"
    and o3: "set [?uno, ?one] = plots (add (add ?l ?one) ?uno)"
    by (simp_all add: add_def new_Layout_def)
  from add_identical_plot_idempotent [OF o1 o2, of "''grid''" 0 4]
  have same: "add (add ?l ?one) ?one = add ?l ?one \<and>
      create (add (add ?l ?one) ?one) [?one] = create (add ?l ?one) [?one]"
    by simp
  from add_identical_plot_idempotent [OF o1 o3, of "''grid''" 0 4]
  have "card (plots (add (add ?l ?one) ?uno)) = 2"
    by simp
  with same show ?thesis by simp
qed

end
